theory Spec2Isabelle
  imports Main "HOL-Library.AList"
begin

section \<open>Outcomes of a call\<close>

text \<open>
  A call of the container either returns, or ends in one of five ways. Two of them are C++
  exceptions, which unwind the stack and run the \<^verbatim>\<open>catch\<close> handlers and the destructors of
  the locals: \<^verbatim>\<open>std::bad_alloc\<close> from \<^verbatim>\<open>operator new\<close>, and an exception thrown by an
  operation of the element type. The other three end the program or leave it without meaning:
  a failed \<^verbatim>\<open>assert\<close>, \<^verbatim>\<open>std::terminate\<close> (an exception leaving a \<^verbatim>\<open>noexcept\<close> function), and
  undefined behaviour (an access outside the storage, to a slot holding no object, a double free).
\<close>

datatype fault = bad_alloc | element_exception | assertion_failure | terminated | undefined_behaviour

definition is_exception :: "fault \<Rightarrow> bool" where
  "is_exception f = (f = bad_alloc \<or> f = element_exception)"

section \<open>The element type and the build\<close>

text \<open>
  The element type \<^verbatim>\<open>T\<close> is the only collaborator of the container. Each of its operations
  may throw, which is the value \<open>None\<close>. A move gives the new value of the destination together
  with the state the source is left in. The two booleans are the traits tested by
  \<^verbatim>\<open>if constexpr\<close>; \<open>operator_new_fails n\<close> says whether the allocation of storage for \<open>n\<close>
  elements throws, and \<open>NDEBUG\<close> whether \<^verbatim>\<open>assert\<close> is compiled out.
\<close>

record 'a env =
  value_construct :: "'a option"
  copy_construct :: "'a \<Rightarrow> 'a option"
  move_construct :: "'a \<Rightarrow> ('a \<times> 'a) option"
  copy_assign :: "'a \<Rightarrow> 'a \<Rightarrow> 'a option"
  move_assign :: "'a \<Rightarrow> 'a \<Rightarrow> ('a \<times> 'a) option"
  is_nothrow_move_constructible :: bool
  is_copy_constructible :: bool
  operator_new_fails :: "nat \<Rightarrow> bool"
  NDEBUG :: bool

text \<open>An exception that leaves a move constructor declared \<^verbatim>\<open>noexcept\<close> ends the program.\<close>

definition move_failure :: "'a env \<Rightarrow> fault" where
  "move_failure E = (if is_nothrow_move_constructible E then terminated else element_exception)"

definition cassert :: "'a env \<Rightarrow> bool \<Rightarrow> fault + unit" where
  "cassert E c = (if \<not> NDEBUG E \<and> \<not> c then Inl assertion_failure else Inr ())"

section \<open>Raw storage\<close>

text \<open>
  The free store is a list of blocks, each a list of slots; a slot holds a live object
  (\<open>Some x\<close>) or is raw (\<open>None\<close>). \<open>leaked\<close> counts the objects whose storage was released, or
  reused, while they were alive, so without their destructor having run. A pointer is the
  address of a block (or \<^verbatim>\<open>nullptr\<close>, \<open>None\<close>) and an offset in elements.
\<close>

record 'a heap =
  blocks :: "(nat \<times> 'a option list) list"
  leaked :: nat

type_synonym pointer = "nat option \<times> nat"

definition fresh :: "(nat \<times> 'b) list \<Rightarrow> nat" where
  "fresh bs = Suc (foldr max (map fst bs) 0)"

definition ptr_add :: "pointer \<Rightarrow> nat \<Rightarrow> pointer" where
  "ptr_add p n = (fst p, snd p + n)"

definition ptr_sub :: "pointer \<Rightarrow> nat \<Rightarrow> fault + pointer" where
  "ptr_sub p n = (if n \<le> snd p then Inr (fst p, snd p - n) else Inl undefined_behaviour)"

text \<open>\<open>ptr_diff last first\<close> is \<^verbatim>\<open>last - first\<close>, defined for two pointers into one block.\<close>

definition ptr_diff :: "pointer \<Rightarrow> pointer \<Rightarrow> fault + nat" where
  "ptr_diff l f = (if fst l = fst f \<and> snd f \<le> snd l then Inr (snd l - snd f)
                   else Inl undefined_behaviour)"

text \<open>
  \<open>slot h p\<close> is \<open>None\<close> where \<open>p\<close> addresses no storage, \<open>Some None\<close> at a raw slot and
  \<open>Some (Some x)\<close> at a live object.
\<close>

definition slot :: "'a heap \<Rightarrow> pointer \<Rightarrow> 'a option option" where
  "slot h p = (case fst p of None \<Rightarrow> None
               | Some a \<Rightarrow> (case map_of (blocks h) a of None \<Rightarrow> None
                  | Some b \<Rightarrow> if snd p < length b then Some (b ! snd p) else None))"

definition set_slot :: "pointer \<Rightarrow> 'a option \<Rightarrow> 'a heap \<Rightarrow> 'a heap" where
  "set_slot p s h = (case fst p of None \<Rightarrow> h
               | Some a \<Rightarrow> (case map_of (blocks h) a of None \<Rightarrow> h
                  | Some b \<Rightarrow> h\<lparr>blocks := AList.update a (b[snd p := s]) (blocks h)\<rparr>))"

definition read :: "'a heap \<Rightarrow> pointer \<Rightarrow> fault + 'a" where
  "read h p = (case slot h p of Some (Some x) \<Rightarrow> Inr x | _ \<Rightarrow> Inl undefined_behaviour)"

text \<open>Assignment to the live object at \<open>p\<close>.\<close>

definition overwrite :: "pointer \<Rightarrow> 'a \<Rightarrow> 'a heap \<Rightarrow> (fault + unit) \<times> 'a heap" where
  "overwrite p x h = (case slot h p of Some (Some y) \<Rightarrow> (Inr (), set_slot p (Some x) h)
                  | _ \<Rightarrow> (Inl undefined_behaviour, h))"

text \<open>
  \<^verbatim>\<open>new (p) T(...)\<close>, where \<open>r\<close> is what the constructor does: it throws (\<open>Inl\<close>) or gives the
  value of the new object. Constructing over a live object ends that object's life without
  its destructor.
\<close>

definition construct_at :: "pointer \<Rightarrow> fault + 'a \<Rightarrow> 'a heap \<Rightarrow> (fault + unit) \<times> 'a heap" where
  "construct_at p r h = (case slot h p of None \<Rightarrow> (Inl undefined_behaviour, h)
     | Some old \<Rightarrow> (case r of Inl e \<Rightarrow> (Inl e, h)
         | Inr x \<Rightarrow> (Inr (), (set_slot p (Some x) h)
                       \<lparr>leaked := leaked h + (case old of None \<Rightarrow> 0 | Some y \<Rightarrow> 1)\<rparr>)))"

definition destroy_at :: "pointer \<Rightarrow> 'a heap \<Rightarrow> (fault + unit) \<times> 'a heap" where
  "destroy_at p h = (case slot h p of Some (Some x) \<Rightarrow> (Inr (), set_slot p None h)
                     | _ \<Rightarrow> (Inl undefined_behaviour, h))"

section \<open>Sequencing and unwinding\<close>

definition andthen :: "('s \<Rightarrow> (fault + 'b) \<times> 's) \<Rightarrow> ('b \<Rightarrow> 's \<Rightarrow> (fault + 'c) \<times> 's)
    \<Rightarrow> 's \<Rightarrow> (fault + 'c) \<times> 's" where
  "andthen m f s = (case m s of (Inl e, s') \<Rightarrow> (Inl e, s') | (Inr x, s') \<Rightarrow> f x s')"

text \<open>
  \<open>unwind e cleanup\<close>: the fault \<open>e\<close> leaves a scope. An exception runs \<open>cleanup\<close> (a handler, or
  the destructors of the locals) and goes on; any other fault runs nothing.
\<close>

definition unwind :: "fault \<Rightarrow> ('s \<Rightarrow> (fault + unit) \<times> 's) \<Rightarrow> 's \<Rightarrow> (fault + 'c) \<times> 's" where
  "unwind e cleanup s = (if is_exception e
     then (case cleanup s of (Inl e', s') \<Rightarrow> (Inl e', s') | (Inr u, s') \<Rightarrow> (Inl e, s'))
     else (Inl e, s))"

section \<open>Operations of the element type on storage\<close>

definition copy_result :: "'a env \<Rightarrow> 'a \<Rightarrow> fault + 'a" where
  "copy_result E x = (case copy_construct E x of None \<Rightarrow> Inl element_exception | Some y \<Rightarrow> Inr y)"


definition copy_construct_at :: "'a env \<Rightarrow> pointer \<Rightarrow> pointer \<Rightarrow> 'a heap \<Rightarrow> (fault + unit) \<times> 'a heap" where
  "copy_construct_at E src dst h =
     (case read h src of Inl e \<Rightarrow> (Inl e, h) | Inr x \<Rightarrow> construct_at dst (copy_result E x) h)"

text \<open>\<^verbatim>\<open>new (dst) T(std::move(*src))\<close>: the source is left in its moved-from state.\<close>

definition move_construct_at :: "'a env \<Rightarrow> pointer \<Rightarrow> pointer \<Rightarrow> 'a heap \<Rightarrow> (fault + unit) \<times> 'a heap" where
  "move_construct_at E src dst h =
     (case read h src of Inl e \<Rightarrow> (Inl e, h)
      | Inr x \<Rightarrow> (case move_construct E x of
           None \<Rightarrow> construct_at dst (Inl (move_failure E)) h
         | Some (y, x') \<Rightarrow> andthen (overwrite src x') (\<lambda>_. construct_at dst (Inr y)) h))"

text \<open>\<^verbatim>\<open>*dst = *src\<close> and \<^verbatim>\<open>*dst = std::move(*src)\<close>.\<close>

definition copy_assign_at :: "'a env \<Rightarrow> pointer \<Rightarrow> pointer \<Rightarrow> 'a heap \<Rightarrow> (fault + unit) \<times> 'a heap" where
  "copy_assign_at E src dst h =
     (case read h src of Inl e \<Rightarrow> (Inl e, h)
      | Inr s \<Rightarrow> (case read h dst of Inl e \<Rightarrow> (Inl e, h)
          | Inr d \<Rightarrow> (case copy_assign E d s of None \<Rightarrow> (Inl element_exception, h)
              | Some d' \<Rightarrow> overwrite dst d' h)))"

definition move_assign_at :: "'a env \<Rightarrow> pointer \<Rightarrow> pointer \<Rightarrow> 'a heap \<Rightarrow> (fault + unit) \<times> 'a heap" where
  "move_assign_at E src dst h =
     (case read h src of Inl e \<Rightarrow> (Inl e, h)
      | Inr s \<Rightarrow> (case read h dst of Inl e \<Rightarrow> (Inl e, h)
          | Inr d \<Rightarrow> (case move_assign E d s of None \<Rightarrow> (Inl element_exception, h)
              | Some (d', s') \<Rightarrow> andthen (overwrite src s') (\<lambda>_. overwrite dst d') h)))"

text \<open>\<^verbatim>\<open>*dst = std::move(tmp)\<close> for a local \<^verbatim>\<open>tmp\<close>, which is destroyed with its scope.\<close>

definition move_assign_from :: "'a env \<Rightarrow> 'a \<Rightarrow> pointer \<Rightarrow> 'a heap \<Rightarrow> (fault + unit) \<times> 'a heap" where
  "move_assign_from E tmp dst h =
     (case read h dst of Inl e \<Rightarrow> (Inl e, h)
      | Inr d \<Rightarrow> (case move_assign E d tmp of None \<Rightarrow> (Inl element_exception, h)
          | Some (d', tmp') \<Rightarrow> overwrite dst d' h))"

section \<open>The algorithms of the standard library\<close>

text \<open>
  The algorithms come from \<^verbatim>\<open><memory>\<close> and \<^verbatim>\<open><algorithm>\<close> and are modelled from the C++
  standard. The \<^verbatim>\<open>uninitialized_\<close> family constructs objects one after the other in raw
  storage; when a construction throws, the objects constructed so far are destroyed and the
  exception goes on. Here each step of the recursion destroys its own object on the way out;
  the order of these destructions is unspecified in the standard.
\<close>

definition lift :: "fault + 'b \<Rightarrow> 's \<Rightarrow> (fault + 'b) \<times> 's" where
  "lift r s = (r, s)"

fun uninitialized_copy_n :: "'a env \<Rightarrow> pointer \<Rightarrow> nat \<Rightarrow> pointer \<Rightarrow> 'a heap \<Rightarrow> (fault + unit) \<times> 'a heap" where
  "uninitialized_copy_n E first 0 d h = (Inr (), h)"
| "uninitialized_copy_n E first (Suc n) d h =
     (case copy_construct_at E first d h of
        (Inl e, h1) \<Rightarrow> (Inl e, h1)
      | (Inr u, h1) \<Rightarrow>
          (case uninitialized_copy_n E (ptr_add first 1) n (ptr_add d 1) h1 of
             (Inl e, h2) \<Rightarrow> unwind e (destroy_at d) h2
           | (Inr u, h2) \<Rightarrow> (Inr (), h2)))"

fun uninitialized_move_n :: "'a env \<Rightarrow> pointer \<Rightarrow> nat \<Rightarrow> pointer \<Rightarrow> 'a heap \<Rightarrow> (fault + unit) \<times> 'a heap" where
  "uninitialized_move_n E first 0 d h = (Inr (), h)"
| "uninitialized_move_n E first (Suc n) d h =
     (case move_construct_at E first d h of
        (Inl e, h1) \<Rightarrow> (Inl e, h1)
      | (Inr u, h1) \<Rightarrow>
          (case uninitialized_move_n E (ptr_add first 1) n (ptr_add d 1) h1 of
             (Inl e, h2) \<Rightarrow> unwind e (destroy_at d) h2
           | (Inr u, h2) \<Rightarrow> (Inr (), h2)))"


fun destroy_n :: "pointer \<Rightarrow> nat \<Rightarrow> 'a heap \<Rightarrow> (fault + unit) \<times> 'a heap" where
  "destroy_n p 0 h = (Inr (), h)"
| "destroy_n p (Suc n) h = andthen (destroy_at p) (\<lambda>u. destroy_n (ptr_add p 1) n) h"

text \<open>The forms that take a range \<^verbatim>\<open>[first, last)\<close>: \<^verbatim>\<open>last\<close> must be reachable from \<^verbatim>\<open>first\<close>.\<close>

definition uninitialized_copy :: "'a env \<Rightarrow> pointer \<Rightarrow> pointer \<Rightarrow> pointer \<Rightarrow> 'a heap \<Rightarrow> (fault + unit) \<times> 'a heap" where
  "uninitialized_copy E first lastp d = andthen (lift (ptr_diff lastp first)) (\<lambda>n. uninitialized_copy_n E first n d)"

definition uninitialized_move :: "'a env \<Rightarrow> pointer \<Rightarrow> pointer \<Rightarrow> pointer \<Rightarrow> 'a heap \<Rightarrow> (fault + unit) \<times> 'a heap" where
  "uninitialized_move E first lastp d = andthen (lift (ptr_diff lastp first)) (\<lambda>n. uninitialized_move_n E first n d)"

definition destroy :: "pointer \<Rightarrow> pointer \<Rightarrow> 'a heap \<Rightarrow> (fault + unit) \<times> 'a heap" where
  "destroy first lastp = andthen (lift (ptr_diff lastp first)) (\<lambda>n. destroy_n first n)"



fun move_backward_n :: "'a env \<Rightarrow> pointer \<Rightarrow> nat \<Rightarrow> pointer \<Rightarrow> 'a heap \<Rightarrow> (fault + unit) \<times> 'a heap" where
  "move_backward_n E lastp 0 d_last h = (Inr (), h)"
| "move_backward_n E lastp (Suc n) d_last h =
     andthen (lift (ptr_sub lastp 1)) (\<lambda>l.
     andthen (lift (ptr_sub d_last 1)) (\<lambda>d.
     andthen (move_assign_at E l d) (\<lambda>u. move_backward_n E l n d))) h"

definition move_backward :: "'a env \<Rightarrow> pointer \<Rightarrow> pointer \<Rightarrow> pointer \<Rightarrow> 'a heap \<Rightarrow> (fault + unit) \<times> 'a heap" where
  "move_backward E first lastp d_last = andthen (lift (ptr_diff lastp first)) (\<lambda>n. move_backward_n E lastp n d_last)"

section \<open>RawMemory\<close>

text \<open>The members \<^verbatim>\<open>buffer_\<close> and \<^verbatim>\<open>capacity_\<close> are the fields \<open>raw_buffer\<close> and \<open>raw_capacity\<close>.\<close>

record RawMemory =
  raw_buffer :: "nat option"
  raw_capacity :: nat

text \<open>\<^verbatim>\<open>Allocate\<close> and \<^verbatim>\<open>Deallocate\<close>; releasing a block twice is undefined.\<close>

definition Allocate :: "'a env \<Rightarrow> nat \<Rightarrow> 'a heap \<Rightarrow> (fault + nat option) \<times> 'a heap" where
  "Allocate E n h =
     (if n \<noteq> 0 then
        (if operator_new_fails E n then (Inl bad_alloc, h)
         else (Inr (Some (fresh (blocks h))),
               h\<lparr>blocks := (fresh (blocks h), replicate n None) # blocks h\<rparr>))
      else (Inr None, h))"

definition Deallocate :: "nat option \<Rightarrow> 'a heap \<Rightarrow> (fault + unit) \<times> 'a heap" where
  "Deallocate buf h =
     (case buf of None \<Rightarrow> (Inr (), h)
      | Some a \<Rightarrow> (case map_of (blocks h) a of None \<Rightarrow> (Inl undefined_behaviour, h)
          | Some b \<Rightarrow> (Inr (), h\<lparr>blocks := AList.delete a (blocks h),
                                  leaked := leaked h + length (filter (\<lambda>s. s \<noteq> None) b)\<rparr>)))"

text \<open>\<^verbatim>\<open>RawMemory() = default\<close> and \<^verbatim>\<open>explicit RawMemory(size_t capacity)\<close>.\<close>

definition RawMemory_default :: RawMemory where
  "RawMemory_default = \<lparr>raw_buffer = None, raw_capacity = 0\<rparr>"

definition RawMemory_new :: "'a env \<Rightarrow> nat \<Rightarrow> 'a heap \<Rightarrow> (fault + RawMemory) \<times> 'a heap" where
  "RawMemory_new E capacity =
     andthen (Allocate E capacity) (\<lambda>b. lift (Inr \<lparr>raw_buffer = b, raw_capacity = capacity\<rparr>))"

text \<open>
  \<^verbatim>\<open>RawMemory(RawMemory&& other)\<close> initialises both members from \<^verbatim>\<open>std::move\<close> of the
  other's, which for a pointer and an integer is a copy. The result is the new object and
  \<^verbatim>\<open>other\<close> after the call.
\<close>

definition RawMemory_move :: "RawMemory \<Rightarrow> RawMemory \<times> RawMemory" where
  "RawMemory_move other = (\<lparr>raw_buffer = raw_buffer other, raw_capacity = raw_capacity other\<rparr>, other)"

text \<open>\<^verbatim>\<open>operator=(RawMemory&& rhs)\<close>, for two distinct objects: \<^verbatim>\<open>*this\<close> and \<^verbatim>\<open>rhs\<close> after the call.\<close>

definition RawMemory_assign :: "RawMemory \<Rightarrow> RawMemory \<Rightarrow> RawMemory \<times> RawMemory" where
  "RawMemory_assign this rhs =
     (let this1 = this\<lparr>raw_buffer := raw_buffer rhs\<rparr>;
          this2 = this1\<lparr>raw_capacity := raw_capacity rhs\<rparr>;
          rhs1 = rhs\<lparr>raw_buffer := None\<rparr>;
          rhs2 = rhs1\<lparr>raw_capacity := 0\<rparr>
      in (this2, rhs2))"

definition RawMemory_dtor :: "RawMemory \<Rightarrow> 'a heap \<Rightarrow> (fault + unit) \<times> 'a heap" where
  "RawMemory_dtor m = Deallocate (raw_buffer m)"

text \<open>\<^verbatim>\<open>operator+\<close> and \<^verbatim>\<open>operator[]\<close>; the reference that \<^verbatim>\<open>operator[]\<close> returns is a pointer here.\<close>

definition RawMemory_plus :: "'a env \<Rightarrow> RawMemory \<Rightarrow> nat \<Rightarrow> fault + pointer" where
  "RawMemory_plus E m offset =
     (case cassert E (offset \<le> raw_capacity m) of Inl e \<Rightarrow> Inl e | Inr u \<Rightarrow> Inr (raw_buffer m, offset))"

definition RawMemory_at :: "'a env \<Rightarrow> RawMemory \<Rightarrow> nat \<Rightarrow> fault + pointer" where
  "RawMemory_at E m index =
     (case cassert E (index < raw_capacity m) of Inl e \<Rightarrow> Inl e | Inr u \<Rightarrow> Inr (raw_buffer m, index))"

definition RawMemory_Swap :: "RawMemory \<Rightarrow> RawMemory \<Rightarrow> RawMemory \<times> RawMemory" where
  "RawMemory_Swap this other =
     (this\<lparr>raw_buffer := raw_buffer other, raw_capacity := raw_capacity other\<rparr>,
      other\<lparr>raw_buffer := raw_buffer this, raw_capacity := raw_capacity this\<rparr>)"

definition GetAddress :: "RawMemory \<Rightarrow> pointer" where
  "GetAddress m = (raw_buffer m, 0)"

definition RawMemory_Capacity :: "RawMemory \<Rightarrow> nat" where
  "RawMemory_Capacity m = raw_capacity m"

text \<open>
  \<^verbatim>\<open>std::swap(a, b)\<close> on two distinct \<^verbatim>\<open>RawMemory\<close> objects, as \<^verbatim>\<open>Vector::Swap\<close> calls it: a
  temporary is move-constructed from \<^verbatim>\<open>a\<close>, \<^verbatim>\<open>b\<close> is move-assigned to \<^verbatim>\<open>a\<close>, the temporary to
  \<^verbatim>\<open>b\<close>, and the temporary is destroyed.
\<close>

definition std_swap :: "RawMemory \<Rightarrow> RawMemory \<Rightarrow> 'a heap \<Rightarrow> (fault + RawMemory \<times> RawMemory) \<times> 'a heap" where
  "std_swap a b =
     (case RawMemory_move a of (tmp, a1) \<Rightarrow>
      case RawMemory_assign a1 b of (a2, b1) \<Rightarrow>
      case RawMemory_assign b1 tmp of (b2, tmp1) \<Rightarrow>
        andthen (RawMemory_dtor tmp1) (\<lambda>u. lift (Inr (a2, b2))))"

section \<open>Vector\<close>

text \<open>
  The members \<^verbatim>\<open>data_\<close> and \<^verbatim>\<open>size_\<close> are the fields \<open>vec_data\<close> and \<open>vec_size\<close>. A member
  function takes the object \<^verbatim>\<open>*this\<close> together with the free store and returns both, also
  when it ends in a fault. Sizes are natural numbers: \<^verbatim>\<open>size_ * 2\<close> cannot wrap around for a
  container that fits the address space.
\<close>

record Vector =
  vec_data :: RawMemory
  vec_size :: nat

definition in_heap :: "('a heap \<Rightarrow> (fault + 'b) \<times> 'a heap) \<Rightarrow> Vector \<times> 'a heap
    \<Rightarrow> (fault + 'b) \<times> Vector \<times> 'a heap" where
  "in_heap m s = (case m (snd s) of (r, h') \<Rightarrow> (r, fst s, h'))"

definition Size :: "Vector \<Rightarrow> nat" where
  "Size v = vec_size v"

definition Capacity :: "Vector \<Rightarrow> nat" where
  "Capacity v = RawMemory_Capacity (vec_data v)"

text \<open>\<^verbatim>\<open>begin()\<close>, \<^verbatim>\<open>end()\<close>, and \<^verbatim>\<open>cbegin()\<close>, \<^verbatim>\<open>cend()\<close> which forward to them.\<close>

definition Vector_begin :: "Vector \<Rightarrow> pointer" where
  "Vector_begin v = GetAddress (vec_data v)"

definition Vector_end :: "'a env \<Rightarrow> Vector \<Rightarrow> fault + pointer" where
  "Vector_end E v = RawMemory_plus E (vec_data v) (vec_size v)"

definition cbegin :: "Vector \<Rightarrow> pointer" where
  "cbegin v = Vector_begin v"


text \<open>\<^verbatim>\<open>end() - 1\<close>.\<close>

definition end_minus_1 :: "'a env \<Rightarrow> Vector \<Rightarrow> fault + pointer" where
  "end_minus_1 E v = (case Vector_end E v of Inl e \<Rightarrow> Inl e | Inr p \<Rightarrow> ptr_sub p 1)"

text \<open>\<^verbatim>\<open>operator[]\<close>: the reference to the element, as a pointer.\<close>

definition Vector_at :: "'a env \<Rightarrow> Vector \<Rightarrow> nat \<Rightarrow> fault + pointer" where
  "Vector_at E v index =
     (case cassert E (index < vec_size v) of Inl e \<Rightarrow> Inl e | Inr u \<Rightarrow> RawMemory_at E (vec_data v) index)"

subsection \<open>Construction, destruction, swap\<close>

definition Vector_default :: Vector where
  "Vector_default = \<lparr>vec_data = RawMemory_default, vec_size = 0\<rparr>"


definition Vector_copy :: "'a env \<Rightarrow> Vector \<Rightarrow> 'a heap \<Rightarrow> (fault + Vector) \<times> 'a heap" where
  "Vector_copy E other h =
     (case RawMemory_new E (vec_size other) h of
        (Inl e, h0) \<Rightarrow> (Inl e, h0)
      | (Inr d, h0) \<Rightarrow>
          (case uninitialized_copy_n E (GetAddress (vec_data other)) (vec_size other) (GetAddress d) h0 of
             (Inl e, h1) \<Rightarrow> unwind e (RawMemory_dtor d) h1
           | (Inr u, h1) \<Rightarrow> (Inr \<lparr>vec_data = d, vec_size = vec_size other\<rparr>, h1)))"

definition Vector_dtor :: "Vector \<Rightarrow> 'a heap \<Rightarrow> (fault + unit) \<times> 'a heap" where
  "Vector_dtor v =
     andthen (destroy_n (GetAddress (vec_data v)) (vec_size v)) (\<lambda>u. RawMemory_dtor (vec_data v))"

text \<open>\<^verbatim>\<open>Swap\<close> on two distinct objects: \<^verbatim>\<open>*this\<close> and \<^verbatim>\<open>other\<close> after the call.\<close>

definition Swap :: "Vector \<Rightarrow> Vector \<Rightarrow> 'a heap \<Rightarrow> (fault + Vector \<times> Vector) \<times> 'a heap" where
  "Swap this other =
     andthen (std_swap (vec_data this) (vec_data other)) (\<lambda>dd.
       lift (Inr (this\<lparr>vec_data := fst dd, vec_size := vec_size other\<rparr>,
                  other\<lparr>vec_data := snd dd, vec_size := vec_size this\<rparr>)))"

text \<open>
  \<^verbatim>\<open>Vector(Vector&& other)\<close>: the members of the new object are default-initialised, then
  swapped with the other's. \<^verbatim>\<open>operator=(Vector&& rhs)\<close> is the swap alone.
\<close>

definition Vector_move :: "Vector \<Rightarrow> 'a heap \<Rightarrow> (fault + Vector \<times> Vector) \<times> 'a heap" where
  "Vector_move other = Swap Vector_default other"

definition move_assignment :: "Vector \<Rightarrow> Vector \<Rightarrow> 'a heap \<Rightarrow> (fault + Vector \<times> Vector) \<times> 'a heap" where
  "move_assignment this rhs = Swap this rhs"

subsection \<open>Copy assignment\<close>

text \<open>The loop \<^verbatim>\<open>for (; i < n; ++i) data_[i] = rhs.data_[i]\<close>; it returns the final \<^verbatim>\<open>i\<close>.\<close>

fun assign_loop :: "'a env \<Rightarrow> RawMemory \<Rightarrow> RawMemory \<Rightarrow> nat \<Rightarrow> nat \<Rightarrow> 'a heap \<Rightarrow> (fault + nat) \<times> 'a heap" where
  "assign_loop E d r i 0 h = (Inr i, h)"
| "assign_loop E d r i (Suc k) h =
     andthen (lift (RawMemory_at E r i)) (\<lambda>src.
     andthen (lift (RawMemory_at E d i)) (\<lambda>dst.
     andthen (copy_assign_at E src dst) (\<lambda>u. assign_loop E d r (Suc i) k))) h"

text \<open>The body of \<^verbatim>\<open>operator=(const Vector& rhs)\<close> under \<^verbatim>\<open>this != &rhs\<close>.\<close>

definition copy_assign_body :: "'a env \<Rightarrow> Vector \<Rightarrow> Vector \<times> 'a heap \<Rightarrow> (fault + unit) \<times> Vector \<times> 'a heap" where
  "copy_assign_body E rhs s = (case s of (this, h) \<Rightarrow>
     if vec_size rhs > RawMemory_Capacity (vec_data this) then
       (case Vector_copy E rhs h of
          (Inl e, h1) \<Rightarrow> (Inl e, this, h1)
        | (Inr rhs_copy, h1) \<Rightarrow>
            (case Swap this rhs_copy h1 of
               (Inl e, h2) \<Rightarrow> (Inl e, this, h2)
             | (Inr tr, h2) \<Rightarrow> in_heap (Vector_dtor (snd tr)) (fst tr, h2)))
     else
       (case (if vec_size rhs < vec_size this then
                andthen (assign_loop E (vec_data this) (vec_data rhs) 0 (vec_size rhs)) (\<lambda>i.
                andthen (lift (RawMemory_plus E (vec_data this) i)) (\<lambda>p.
                  destroy_n p (vec_size this - vec_size rhs))) h
              else
                andthen (assign_loop E (vec_data this) (vec_data rhs) 0 (vec_size this)) (\<lambda>i.
                andthen (lift (RawMemory_plus E (vec_data rhs) i)) (\<lambda>src.
                andthen (lift (RawMemory_plus E (vec_data this) i)) (\<lambda>dst.
                  uninitialized_copy_n E src (vec_size rhs - vec_size this) dst))) h) of
          (Inl e, h1) \<Rightarrow> (Inl e, this, h1)
        | (Inr u, h1) \<Rightarrow> (Inr (), this\<lparr>vec_size := vec_size rhs\<rparr>, h1)))"

text \<open>
  The test \<^verbatim>\<open>this != &rhs\<close> compares the identities of two objects, so the operator itself
  works on a store of \<^verbatim>\<open>Vector\<close> objects, named by their addresses.
\<close>

record 'a world =
  objects :: "nat \<Rightarrow> Vector"
  store :: "'a heap"

definition copy_assignment :: "'a env \<Rightarrow> nat \<Rightarrow> nat \<Rightarrow> 'a world \<Rightarrow> (fault + unit) \<times> 'a world" where
  "copy_assignment E this rhs w =
     (if this \<noteq> rhs then
        (case copy_assign_body E (objects w rhs) (objects w this, store w) of
           (r, v, h) \<Rightarrow> (r, w\<lparr>objects := (objects w)(this := v), store := h\<rparr>))
      else (Inr (), w))"

subsection \<open>Reserve and Resize\<close>



subsection \<open>Insertion\<close>

text \<open>
  The arguments of \<^verbatim>\<open>Emplace\<close> are forwarded to a constructor of \<^verbatim>\<open>T\<close>; \<open>args\<close> is what
  that constructor does with them: it throws (\<open>Inl\<close>) or gives the value of the new object.
  The arguments are taken to lie outside the container.
\<close>

definition UninitializedMoveOrCopy :: "'a env \<Rightarrow> pointer \<Rightarrow> pointer \<Rightarrow> pointer \<Rightarrow> 'a heap \<Rightarrow> (fault + unit) \<times> 'a heap" where
  "UninitializedMoveOrCopy E b e dest =
     (if is_nothrow_move_constructible E \<or> \<not> is_copy_constructible E
      then uninitialized_move E b e dest
      else uninitialized_copy E b e dest)"

text \<open>
  The \<^verbatim>\<open>try\<close> block of \<^verbatim>\<open>EmplaceRealloc\<close>; the first component of the result is the value of
  \<^verbatim>\<open>step\<close> when the block is left.
\<close>

definition EmplaceRealloc_try :: "'a env \<Rightarrow> Vector \<Rightarrow> RawMemory \<Rightarrow> pointer \<Rightarrow> pointer \<Rightarrow> pointer \<Rightarrow> fault + 'a
    \<Rightarrow> 'a heap \<Rightarrow> nat \<times> (fault + Vector \<times> RawMemory) \<times> 'a heap" where
  "EmplaceRealloc_try E this new_data position new_begin new_position args h =
     (case construct_at new_position args h of
        (Inl e, h1) \<Rightarrow> (0, Inl e, h1)
      | (Inr u, h1) \<Rightarrow>
     (case UninitializedMoveOrCopy E (Vector_begin this) position new_begin h1 of
        (Inl e, h2) \<Rightarrow> (1, Inl e, h2)
      | (Inr u, h2) \<Rightarrow>
     (case andthen (lift (Vector_end E this)) (\<lambda>en.
             UninitializedMoveOrCopy E position en (ptr_add new_position 1)) h2 of
        (Inl e, h3) \<Rightarrow> (2, Inl e, h3)
      | (Inr u, h3) \<Rightarrow>
     (case destroy_n (Vector_begin this) (vec_size this) h3 of
        (Inl e, h4) \<Rightarrow> (2, Inl e, h4)
      | (Inr u, h4) \<Rightarrow>
          (2, Inr (case RawMemory_Swap (vec_data this) new_data of
                     (d, new_data') \<Rightarrow> (this\<lparr>vec_data := d\<rparr>, new_data')), h4)))))"

definition EmplaceRealloc_catch :: "nat \<Rightarrow> pointer \<Rightarrow> pointer \<Rightarrow> 'a heap \<Rightarrow> (fault + unit) \<times> 'a heap" where
  "EmplaceRealloc_catch step new_begin new_position =
     (if step = 1 then destroy_n new_position 1
      else if step = 2 then destroy new_begin (ptr_add new_position 1)
      else lift (Inr ()))"

definition EmplaceRealloc :: "'a env \<Rightarrow> pointer \<Rightarrow> fault + 'a \<Rightarrow> Vector \<times> 'a heap
    \<Rightarrow> (fault + pointer) \<times> Vector \<times> 'a heap" where
  "EmplaceRealloc E pos args s = (case s of (this, h) \<Rightarrow>
     (case RawMemory_new E (if vec_size this = 0 then 1 else vec_size this * 2) h of
        (Inl e, h0) \<Rightarrow> (Inl e, this, h0)
      | (Inr new_data, h0) \<Rightarrow>
     (case (case ptr_diff pos (cbegin this) of Inl e \<Rightarrow> Inl e
            | Inr indx \<Rightarrow> RawMemory_plus E new_data indx) of
        Inl e \<Rightarrow> (Inl e, this, h0)
      | Inr new_position \<Rightarrow>
     (case EmplaceRealloc_try E this new_data pos (GetAddress new_data) new_position args h0 of
        (step, Inl e, h1) \<Rightarrow>
          in_heap (unwind e (andthen (EmplaceRealloc_catch step (GetAddress new_data) new_position)
                               (\<lambda>u. RawMemory_dtor new_data))) (this, h1)
      | (step, Inr tn, h1) \<Rightarrow>
          in_heap (andthen (RawMemory_dtor (snd tn)) (\<lambda>u. lift (Inr new_position)))
            ((fst tn)\<lparr>vec_size := vec_size (fst tn) + 1\<rparr>, h1)))))"

definition Emplace :: "'a env \<Rightarrow> pointer \<Rightarrow> fault + 'a \<Rightarrow> Vector \<times> 'a heap
    \<Rightarrow> (fault + pointer) \<times> Vector \<times> 'a heap" where
  "Emplace E pos args s = (case s of (this, h) \<Rightarrow>
     if vec_size this = Capacity this then EmplaceRealloc E pos args s
     else
       (case Vector_end E this of
          Inl e \<Rightarrow> (Inl e, this, h)
        | Inr en \<Rightarrow>
            if pos = en then
              (case construct_at pos args h of
                 (Inl e, h1) \<Rightarrow> (Inl e, this, h1)
               | (Inr u, h1) \<Rightarrow> (Inr pos, this\<lparr>vec_size := vec_size this + 1\<rparr>, h1))
            else
              (case args of
                 Inl e \<Rightarrow> (Inl e, this, h)
               | Inr tmp \<Rightarrow>
                   (case andthen (lift (end_minus_1 E this)) (\<lambda>l.
                         andthen (uninitialized_move_n E l 1 en) (\<lambda>u.
                         andthen (move_backward E pos l en) (\<lambda>u.
                           move_assign_from E tmp pos))) h of
                      (Inl e, h1) \<Rightarrow> (Inl e, this, h1)
                    | (Inr u, h1) \<Rightarrow> (Inr pos, this\<lparr>vec_size := vec_size this + 1\<rparr>, h1)))))"

text \<open>
  \<^verbatim>\<open>Insert(pos, T&&)\<close> constructs the element by move, \<^verbatim>\<open>Insert(pos, const T&)\<close> by copy;
  \<^verbatim>\<open>EmplaceBack\<close> inserts at \<^verbatim>\<open>end()\<close> and returns a reference to the element.
\<close>

definition move_result :: "'a env \<Rightarrow> 'a \<Rightarrow> fault + 'a" where
  "move_result E x = (case move_construct E x of None \<Rightarrow> Inl (move_failure E) | Some yx \<Rightarrow> Inr (fst yx))"



definition EmplaceBack :: "'a env \<Rightarrow> fault + 'a \<Rightarrow> Vector \<times> 'a heap \<Rightarrow> (fault + pointer) \<times> Vector \<times> 'a heap" where
  "EmplaceBack E args s =
     (case Vector_end E (fst s) of Inl e \<Rightarrow> (Inl e, s) | Inr en \<Rightarrow> Emplace E en args s)"

definition PushBack_move :: "'a env \<Rightarrow> 'a \<Rightarrow> Vector \<times> 'a heap \<Rightarrow> (fault + unit) \<times> Vector \<times> 'a heap" where
  "PushBack_move E x = andthen (EmplaceBack E (move_result E x)) (\<lambda>r. lift (Inr ()))"

definition PushBack_copy :: "'a env \<Rightarrow> 'a \<Rightarrow> Vector \<times> 'a heap \<Rightarrow> (fault + unit) \<times> Vector \<times> 'a heap" where
  "PushBack_copy E x = andthen (EmplaceBack E (copy_result E x)) (\<lambda>r. lift (Inr ()))"

subsection \<open>Removal\<close>

text \<open>
  \<^verbatim>\<open>--size_\<close> is reached only after \<^verbatim>\<open>end() - 1\<close> has been formed, so with \<^verbatim>\<open>size_ > 0\<close>, where
  it does not wrap around.
\<close>

definition PopBack :: "'a env \<Rightarrow> Vector \<times> 'a heap \<Rightarrow> (fault + unit) \<times> Vector \<times> 'a heap" where
  "PopBack E s =
     andthen (lift (cassert E (vec_size (fst s) > 0))) (\<lambda>u.
     andthen (lift (end_minus_1 E (fst s))) (\<lambda>p.
     andthen (in_heap (destroy_n p 1)) (\<lambda>u s1.
       (Inr (), (fst s1)\<lparr>vec_size := vec_size (fst s1) - 1\<rparr>, snd s1)))) s"


section \<open>The second copy of the container\<close>




definition PopBack_000 :: "'a env \<Rightarrow> Vector \<times> 'a heap \<Rightarrow> (fault + unit) \<times> Vector \<times> 'a heap" where
  "PopBack_000 E s =
     andthen (lift (end_minus_1 E (fst s))) (\<lambda>p.
     andthen (in_heap (destroy_n p 1)) (\<lambda>u s1.
       (Inr (), (fst s1)\<lparr>vec_size := vec_size (fst s1) - 1\<rparr>, snd s1))) s"


section \<open>What a container holds\<close>

text \<open>
  \<open>holds h v xs\<close>: in the free store \<open>h\<close> the container \<open>v\<close> holds the elements \<open>xs\<close>. Its
  size is their number and does not exceed the capacity; the handle is null exactly when
  the capacity is zero, and otherwise names a block of as many slots as the capacity, of which
  the first hold the elements, live, and the rest are raw.
\<close>

definition holds :: "'a heap \<Rightarrow> Vector \<Rightarrow> 'a list \<Rightarrow> bool" where
  "holds h v xs =
     (vec_size v = length xs \<and> length xs \<le> raw_capacity (vec_data v) \<and>
      (case raw_buffer (vec_data v) of
         None \<Rightarrow> raw_capacity (vec_data v) = 0
       | Some p \<Rightarrow> 0 < raw_capacity (vec_data v) \<and>
           map_of (blocks h) p =
             Some (map Some xs @ replicate (raw_capacity (vec_data v) - length xs) None)))"

text \<open>
  Copying, or moving, a sequence of elements one after the other: \<open>None\<close> when one of the
  constructors throws. \<open>moves\<close> gives the new objects and the states the sources are left in.
\<close>

fun copies :: "'a env \<Rightarrow> 'a list \<Rightarrow> 'a list option" where
  "copies E [] = Some []"
| "copies E (x # xs) =
     (case copy_construct E x of None \<Rightarrow> None
      | Some y \<Rightarrow> (case copies E xs of None \<Rightarrow> None | Some ys \<Rightarrow> Some (y # ys)))"

fun moves :: "'a env \<Rightarrow> 'a list \<Rightarrow> ('a list \<times> 'a list) option" where
  "moves E [] = Some ([], [])"
| "moves E (x # xs) =
     (case move_construct E x of None \<Rightarrow> None
      | Some yx \<Rightarrow> (case moves E xs of None \<Rightarrow> None
          | Some r \<Rightarrow> Some (fst yx # fst r, snd yx # snd r)))"

section \<open>Sequences of PushBack and the growth of the capacity\<close>

text \<open>A call of \<^verbatim>\<open>PushBack\<close> takes its argument by copy or by move.\<close>

datatype 'a push = ByCopy 'a | ByMove 'a

fun PushBack :: "'a env \<Rightarrow> 'a push \<Rightarrow> Vector \<times> 'a heap \<Rightarrow> (fault + unit) \<times> Vector \<times> 'a heap" where
  "PushBack E (ByCopy x) = PushBack_copy E x"
| "PushBack E (ByMove x) = PushBack_move E x"

fun PushBack_all :: "'a env \<Rightarrow> 'a push list \<Rightarrow> Vector \<times> 'a heap \<Rightarrow> (fault + unit) \<times> Vector \<times> 'a heap" where
  "PushBack_all E [] s = (Inr (), s)"
| "PushBack_all E (p # ps) s = andthen (PushBack E p) (\<lambda>u. PushBack_all E ps) s"

text \<open>
  The growth of the capacity in the words of the specification: starting from size and
  capacity \<open>0\<close>, each push applies \<open>capacity' = max(1, 2 \<times> capacity)\<close> exactly when the size
  equals the capacity before it.
\<close>

fun spec_growth :: "nat \<Rightarrow> nat \<times> nat" where
  "spec_growth 0 = (0, 0)"
| "spec_growth (Suc k) =
     (case spec_growth k of
        (sz, cap) \<Rightarrow> (Suc sz, if sz = cap then max 1 (2 * cap) else cap))"

section \<open>Relocation\<close>

text \<open>
  Growth relocates the elements by move when the move constructor cannot throw or there is no
  copy constructor, and by copy otherwise. \<open>relocate\<close> gives the relocated elements, or
  \<open>None\<close> when a constructor throws on the way. \<open>released buf bs\<close> is the list of blocks
  \<open>bs\<close> after the storage behind the handle \<open>buf\<close> has been given back.
\<close>

definition uses_move :: "'a env \<Rightarrow> bool" where
  "uses_move E = (is_nothrow_move_constructible E \<or> \<not> is_copy_constructible E)"

definition relocate :: "'a env \<Rightarrow> 'a list \<Rightarrow> 'a list option" where
  "relocate E xs = (if uses_move E then map_option fst (moves E xs) else copies E xs)"

definition released :: "nat option \<Rightarrow> (nat \<times> 'b) list \<Rightarrow> (nat \<times> 'b) list" where
  "released buf bs = (case buf of None \<Rightarrow> bs | Some p \<Rightarrow> AList.delete p bs)"

section \<open>Consistent states and transactions\<close>




section \<open>Two element types and a few containers\<close>

text \<open>
  Two element types over the natural numbers, both built with assertions enabled and with an
  allocator that refuses more than a hundred elements. The first is copyable; its copy
  constructor and copy assignment throw for the value \<open>13\<close>, and its move constructor may throw
  as far as the compiler knows. The second has no copy constructor, and its move constructor
  throws for the value \<open>13\<close>. A moved-from object holds \<open>0\<close>.
\<close>

definition E_copy :: "nat env" where
  "E_copy = \<lparr>value_construct = Some 0,
     copy_construct = (\<lambda>x. if x = 13 then None else Some x),
     move_construct = (\<lambda>x. Some (x, 0)),
     copy_assign = (\<lambda>d s. if s = 13 then None else Some s),
     move_assign = (\<lambda>d s. Some (s, 0)),
     is_nothrow_move_constructible = False,
     is_copy_constructible = True,
     operator_new_fails = (\<lambda>n. 100 < n),
     NDEBUG = False\<rparr>"


text \<open>A full container of capacity two that holds \<open>1\<close> and \<open>13\<close>, and the free store it lives in.\<close>

definition V2 :: Vector where
  "V2 = \<lparr>vec_data = \<lparr>raw_buffer = Some 1, raw_capacity = 2\<rparr>, vec_size = 2\<rparr>"


text \<open>
  A world of two objects: the object at address \<open>1\<close> is the full container above, every other
  object is a container of capacity one that holds \<open>7\<close>; all of these share one buffer, so
  the world is well-formed for the objects \<open>0\<close> and \<open>1\<close> only.
\<close>

definition W2 :: "nat world" where
  "W2 = \<lparr>objects = (\<lambda>a. if a = 1 then V2
                         else \<lparr>vec_data = \<lparr>raw_buffer = Some 2, raw_capacity = 1\<rparr>, vec_size = 1\<rparr>),
          store = \<lparr>blocks = [(1, [Some 1, Some 13]), (2, [Some 7])], leaked = 0\<rparr>\<rparr>"



section \<open>Properties\<close>

subsection \<open>Swap and the move operations\<close>

lemma std_swap_exchanges: "std_swap a b h = (Inr (b, a), h)"
  by (simp add: std_swap_def RawMemory_move_def RawMemory_assign_def RawMemory_dtor_def
      Deallocate_def andthen_def lift_def Let_def)

lemma Swap_exchanges: "Swap this other h = (Inr (other, this), h)"
  by (simp add: Swap_def std_swap_exchanges andthen_def lift_def)

text \<open>
  C3, as amended. Move construction and move assignment never fail and leave the free store
  as it is. Move construction gives the new object the state of the source and leaves the
  source empty, with size and capacity zero. Move assignment exchanges the two objects: the
  source ends up holding what the target held, so its size is zero only if the target was empty.
\<close>

theorem move_operations_exchange:
  "Vector_move other h = (Inr (other, Vector_default), h) \<and>
   Size Vector_default = 0 \<and> Capacity Vector_default = 0 \<and>
   move_assignment this rhs h = (Inr (rhs, this), h)"
  by (simp add: Vector_move_def move_assignment_def Swap_exchanges Size_def Capacity_def
      Vector_default_def RawMemory_default_def RawMemory_Capacity_def)

text \<open>
  C3, as stated, fails for move assignment: a target holding one element is assigned from a
  source holding two, and the source then has size one.
\<close>

theorem move_assignment_source_not_empty:
  "move_assignment
     \<lparr>vec_data = \<lparr>raw_buffer = Some 1, raw_capacity = 1\<rparr>, vec_size = 1\<rparr>
     \<lparr>vec_data = \<lparr>raw_buffer = Some 2, raw_capacity = 2\<rparr>, vec_size = 2\<rparr>
     \<lparr>blocks = [(1, [Some (7::nat)]), (2, [Some 8, Some 9])], leaked = 0\<rparr>
   = (Inr (\<lparr>vec_data = \<lparr>raw_buffer = Some 2, raw_capacity = 2\<rparr>, vec_size = 2\<rparr>,
           \<lparr>vec_data = \<lparr>raw_buffer = Some 1, raw_capacity = 1\<rparr>, vec_size = 1\<rparr>),
      \<lparr>blocks = [(1, [Some 7]), (2, [Some 8, Some 9])], leaked = 0\<rparr>) \<and>
   Size \<lparr>vec_data = \<lparr>raw_buffer = Some 1, raw_capacity = 1\<rparr>, vec_size = 1\<rparr> \<noteq> 0"
  by (simp add: move_assignment_def Swap_exchanges Size_def)

subsection \<open>Copy assignment of an object to itself\<close>

text \<open>
  C10. Copy assignment of an object to itself returns without a fault and leaves the whole
  world as it is: the object (size, capacity, handle), every block of the free store, so
  every element, and the count of objects lost without destruction.
\<close>

theorem copy_self_assignment_is_noop:
  "copy_assignment E v v w = (Inr (), w)"
  by (simp add: copy_assignment_def)
subsection \<open>Sequencing, slots and blocks\<close>

lemma andthen_lift [simp]:
  "andthen (lift (Inr x)) f s = f x s"
  "andthen (lift (Inl e)) f s = (Inl e, s)"
  by (simp_all add: andthen_def lift_def)

lemma andthen_Inr: "m s = (Inr x, s') \<Longrightarrow> andthen m f s = f x s'"
  by (simp add: andthen_def)

lemma andthen_Inl: "m s = (Inl e, s') \<Longrightarrow> andthen m f s = (Inl e, s')"
  by (simp add: andthen_def)

lemma slot_block:
  "map_of (blocks h) a = Some b \<Longrightarrow> slot h (Some a, i) = (if i < length b then Some (b ! i) else None)"
  by (simp add: slot_def)

lemma set_slot_block:
  "map_of (blocks h) a = Some b \<Longrightarrow> set_slot (Some a, i) v h = h\<lparr>blocks := AList.update a (b[i := v]) (blocks h)\<rparr>"
  by (simp add: set_slot_def)

lemma read_block:
  "map_of (blocks h) a = Some b \<Longrightarrow> i < length b \<Longrightarrow> b ! i = Some x \<Longrightarrow> read h (Some a, i) = Inr x"
  by (simp add: read_def slot_block)

lemma construct_at_block:
  "map_of (blocks h) a = Some b \<Longrightarrow> i < length b \<Longrightarrow> b ! i = None \<Longrightarrow>
   construct_at (Some a, i) (Inr x) h = (Inr (), h\<lparr>blocks := AList.update a (b[i := Some x]) (blocks h)\<rparr>)"
  by (simp add: construct_at_def slot_block set_slot_block)

lemma construct_at_throws:
  "map_of (blocks h) a = Some b \<Longrightarrow> i < length b \<Longrightarrow> construct_at (Some a, i) (Inl e) h = (Inl e, h)"
  by (simp add: construct_at_def slot_block)

lemma destroy_at_block:
  "map_of (blocks h) a = Some b \<Longrightarrow> i < length b \<Longrightarrow> b ! i = Some x \<Longrightarrow>
   destroy_at (Some a, i) h = (Inr (), h\<lparr>blocks := AList.update a (b[i := None]) (blocks h)\<rparr>)"
  by (simp add: destroy_at_def slot_block set_slot_block)


lemma heap_same_block:
  "map_of (blocks h) a = Some b \<Longrightarrow> h\<lparr>blocks := AList.update a b (blocks h)\<rparr> = h"
  by (simp add: update_triv)

lemma uninitialized_copy_n_shape:
  assumes "map_of (blocks h) p = Some (pre @ map Some xs @ post)"
      and "map_of (blocks h) q = Some (qpre @ replicate (length xs) None @ qpost)"
      and "p \<noteq> q"
  shows "uninitialized_copy_n E (Some p, length pre) (length xs) (Some q, length qpre) h =
         (case copies E xs of
            None \<Rightarrow> (Inl element_exception, h)
          | Some ys \<Rightarrow> (Inr (), h\<lparr>blocks := AList.update q (qpre @ map Some ys @ qpost) (blocks h)\<rparr>))"
  using assms
proof (induction xs arbitrary: pre qpre h)
  case Nil
  then show ?case by (simp add: update_triv)
next
  case (Cons x xs)
  have rd: "read h (Some p, length pre) = Inr x"
    using Cons.prems(1) by (simp add: read_block nth_append)
  show ?case
  proof (cases "copy_construct E x")
    case None
    then show ?thesis
      using Cons.prems rd
      by (simp add: copy_construct_at_def copy_result_def construct_at_throws)
  next
    case (Some y)
    let ?h1 = "h\<lparr>blocks := AList.update q ((qpre @ [Some y]) @ replicate (length xs) None @ qpost) (blocks h)\<rparr>"
    have c1: "copy_construct_at E (Some p, length pre) (Some q, length qpre) h = (Inr (), ?h1)"
      using Cons.prems rd Some
      by (simp add: copy_construct_at_def copy_result_def construct_at_block nth_append list_update_append)
    have p1: "map_of (blocks ?h1) p = Some ((pre @ [Some x]) @ map Some xs @ post)"
      using Cons.prems by (simp add: update_conv')
    have q1: "map_of (blocks ?h1) q = Some ((qpre @ [Some y]) @ replicate (length xs) None @ qpost)"
      by (simp add: update_conv')
    note IH = Cons.IH[OF p1 q1 Cons.prems(3)]
    show ?thesis
    proof (cases "copies E xs")
      case None
      have d: "destroy_at (Some q, length qpre) ?h1 = (Inr (), h)"
        using Cons.prems(2)
        by (subst destroy_at_block[OF q1]) (simp_all add: nth_append list_update_append update_triv)
      show ?thesis
        using c1 IH None Some d
        by (simp add: ptr_add_def unwind_def is_exception_def)
    next
      case (Some ys)
      show ?thesis
        using c1 IH Some \<open>copy_construct E x = Some y\<close>
        by (simp add: ptr_add_def)
    qed
  qed
qed

lemma update_commute:
  "map_of al k = Some u \<Longrightarrow> map_of al k' = Some u' \<Longrightarrow> k \<noteq> k' \<Longrightarrow>
   AList.update k v (AList.update k' v' al) = AList.update k' v' (AList.update k v al)"
  by (induction al) auto




lemma destroy_n_shape:
  assumes "map_of (blocks h) p = Some (pre @ map Some xs @ post)"
  shows "destroy_n (Some p, length pre) (length xs) h =
         (Inr (), h\<lparr>blocks := AList.update p (pre @ replicate (length xs) None @ post) (blocks h)\<rparr>)"
  using assms
proof (induction xs arbitrary: pre h)
  case Nil
  then show ?case by (simp add: update_triv)
next
  case (Cons x xs)
  let ?h1 = "h\<lparr>blocks := AList.update p ((pre @ [None]) @ map Some xs @ post) (blocks h)\<rparr>"
  have d: "destroy_at (Some p, length pre) h = (Inr (), ?h1)"
    by (subst destroy_at_block[OF Cons.prems]) (simp_all add: nth_append list_update_append)
  have p1: "map_of (blocks ?h1) p = Some ((pre @ [None]) @ map Some xs @ post)"
    by (simp add: update_conv')
  note IH = Cons.IH[OF p1]
  show ?case
    using d IH by (simp add: andthen_def ptr_add_def replicate_append_same)
qed

lemma foldr_max_ge: "k \<in> set ks \<Longrightarrow> k \<le> foldr max ks (0::nat)"
  by (induction ks) auto

lemma fresh_notin: "fresh bs \<notin> fst ` set bs"
proof
  assume "fresh bs \<in> fst ` set bs"
  then have "fresh bs \<in> set (map fst bs)" by simp
  then have "fresh bs \<le> foldr max (map fst bs) 0" by (rule foldr_max_ge)
  then show False by (simp add: fresh_def)
qed

lemma map_of_fresh [simp]: "map_of bs (fresh bs) = None"
  using fresh_notin[of bs] by (simp add: map_of_eq_None_iff)

lemma fresh_neq: "map_of bs p = Some b \<Longrightarrow> fresh bs \<noteq> p"
  by auto

lemma delete_fresh [simp]: "AList.delete (fresh bs) bs = bs"
  by (simp add: fresh_notin)

lemma RawMemory_new_eq:
  "RawMemory_new E n h =
     (if n = 0 then (Inr \<lparr>raw_buffer = None, raw_capacity = 0\<rparr>, h)
      else if operator_new_fails E n then (Inl bad_alloc, h)
      else (Inr \<lparr>raw_buffer = Some (fresh (blocks h)), raw_capacity = n\<rparr>,
            h\<lparr>blocks := (fresh (blocks h), replicate n None) # blocks h\<rparr>))"
  by (simp add: RawMemory_new_def Allocate_def andthen_def lift_def)

lemma Deallocate_block:
  "map_of (blocks h) a = Some b \<Longrightarrow>
   Deallocate (Some a) h = (Inr (), h\<lparr>blocks := AList.delete a (blocks h),
                                      leaked := leaked h + length (filter (\<lambda>s. s \<noteq> None) b)\<rparr>)"
  by (simp add: Deallocate_def)

lemma filter_live_replicate [simp]: "filter (\<lambda>s. s \<noteq> None) (replicate n None) = []"
  by (induction n) auto



lemma holds_null: "holds h v xs \<Longrightarrow> raw_buffer (vec_data v) = None \<Longrightarrow> xs = [] \<and> raw_capacity (vec_data v) = 0"
  by (auto simp add: holds_def)

lemma holds_block: "holds h v xs \<Longrightarrow> raw_buffer (vec_data v) = Some p \<Longrightarrow>
   map_of (blocks h) p = Some (map Some xs @ replicate (raw_capacity (vec_data v) - length xs) None)"
  by (simp add: holds_def)

lemma holds_nonempty: "holds h v xs \<Longrightarrow> xs \<noteq> [] \<Longrightarrow> \<exists>p. raw_buffer (vec_data v) = Some p"
  by (cases "raw_buffer (vec_data v)") (auto simp add: holds_def)

lemma Vector_copy_holds:
  assumes "holds h other ys"
  shows "Vector_copy E other h =
     (if ys = [] then (Inr \<lparr>vec_data = \<lparr>raw_buffer = None, raw_capacity = 0\<rparr>, vec_size = 0\<rparr>, h)
      else if operator_new_fails E (length ys) then (Inl bad_alloc, h)
      else case copies E ys of
         None \<Rightarrow> (Inl element_exception, h)
       | Some zs \<Rightarrow> (Inr \<lparr>vec_data = \<lparr>raw_buffer = Some (fresh (blocks h)), raw_capacity = length ys\<rparr>,
                          vec_size = length ys\<rparr>,
                     h\<lparr>blocks := (fresh (blocks h), map Some zs) # blocks h\<rparr>))"
proof (cases "ys = []")
  case True
  then show ?thesis
    using assms by (simp add: Vector_copy_def RawMemory_new_eq holds_def)
next
  case False
  then obtain p where p: "raw_buffer (vec_data other) = Some p"
    using holds_nonempty[OF assms] by auto
  note pb = holds_block[OF assms p]
  have sz: "vec_size other = length ys" using assms by (simp add: holds_def)
  let ?q = "fresh (blocks h)"
  let ?h0 = "h\<lparr>blocks := (?q, replicate (length ys) None) # blocks h\<rparr>"
  have qp: "p \<noteq> ?q" using fresh_neq[OF pb] by auto
  have p0: "map_of (blocks ?h0) p = Some ([] @ map Some ys @ replicate (raw_capacity (vec_data other) - length ys) None)"
    using pb qp by simp
  have q0: "map_of (blocks ?h0) ?q = Some ([] @ replicate (length ys) None @ [])"
    by simp
  note sh = uninitialized_copy_n_shape[OF p0 q0 qp, of E, simplified]
  show ?thesis
  proof (cases "operator_new_fails E (length ys)")
    case True
    then show ?thesis using False by (simp add: Vector_copy_def RawMemory_new_eq sz)
  next
    case nf: False
    show ?thesis
    proof (cases "copies E ys")
      case None
      then show ?thesis
        using False nf sh p
        by (simp add: Vector_copy_def RawMemory_new_eq sz GetAddress_def unwind_def is_exception_def
            RawMemory_dtor_def Deallocate_def)
    next
      case (Some zs)
      then show ?thesis
        using False nf sh p
        by (simp add: Vector_copy_def RawMemory_new_eq sz GetAddress_def)
    qed
  qed
qed

lemma holds_size: "holds h v xs \<Longrightarrow> vec_size v = length xs"
  by (simp add: holds_def)

lemma holds_le: "holds h v xs \<Longrightarrow> length xs \<le> raw_capacity (vec_data v)"
  by (simp add: holds_def)

lemma holds_fresh:
  "holds h v xs \<Longrightarrow> holds (h\<lparr>blocks := (fresh (blocks h), b) # blocks h\<rparr>) v xs"
  by (auto simp add: holds_def split: option.splits)

lemma destroy_n_holds:
  assumes "holds h v xs"
  shows "destroy_n (GetAddress (vec_data v)) (vec_size v) h =
     (Inr (), case raw_buffer (vec_data v) of None \<Rightarrow> h
        | Some p \<Rightarrow> h\<lparr>blocks := AList.update p (replicate (raw_capacity (vec_data v)) None) (blocks h)\<rparr>)"
proof (cases "raw_buffer (vec_data v)")
  case None
  then show ?thesis using holds_null[OF assms None] holds_size[OF assms] by simp
next
  case (Some p)
  have pb: "map_of (blocks h) p = Some ([] @ map Some xs @ replicate (raw_capacity (vec_data v) - length xs) None)"
    using holds_block[OF assms Some] by simp
  have "replicate (length xs) None @ replicate (raw_capacity (vec_data v) - length xs) None
        = (replicate (raw_capacity (vec_data v)) None :: 'a option list)"
    using holds_le[OF assms] by (simp add: replicate_add[symmetric])
  then show ?thesis
    using destroy_n_shape[OF pb] Some holds_size[OF assms]
    by (simp add: GetAddress_def)
qed

lemma Vector_dtor_holds:
  assumes "holds h v xs"
  shows "Vector_dtor v h =
     (Inr (), case raw_buffer (vec_data v) of None \<Rightarrow> h
        | Some p \<Rightarrow> h\<lparr>blocks := AList.delete p (blocks h)\<rparr>)"
  using destroy_n_holds[OF assms]
  by (cases "raw_buffer (vec_data v)")
     (simp_all add: Vector_dtor_def andthen_def RawMemory_dtor_def Deallocate_def update_conv'
        delete_update_same)

lemma copy_assign_body_grow:
  assumes t: "holds h this xs" and r: "holds h rhs ys"
      and gt: "raw_capacity (vec_data this) < vec_size rhs"
  shows "copy_assign_body E rhs (this, h) =
     (if operator_new_fails E (length ys) then (Inl bad_alloc, this, h)
      else case copies E ys of
         None \<Rightarrow> (Inl element_exception, this, h)
       | Some zs \<Rightarrow>
           (Inr (), \<lparr>vec_data = \<lparr>raw_buffer = Some (fresh (blocks h)), raw_capacity = length ys\<rparr>,
                     vec_size = length ys\<rparr>,
            h\<lparr>blocks := (fresh (blocks h), map Some zs) # released (raw_buffer (vec_data this)) (blocks h)\<rparr>))"
proof -
  have ne: "ys \<noteq> []" using gt holds_size[OF r] by auto
  note vc = Vector_copy_holds[OF r, of E]
  show ?thesis
  proof (cases "operator_new_fails E (length ys)")
    case True
    then show ?thesis using vc ne gt by (simp add: copy_assign_body_def RawMemory_Capacity_def)
  next
    case nf: False
    show ?thesis
    proof (cases "copies E ys")
      case None
      then show ?thesis using vc ne gt nf by (simp add: copy_assign_body_def RawMemory_Capacity_def)
    next
      case (Some zs)
      let ?h1 = "h\<lparr>blocks := (fresh (blocks h), map Some zs) # blocks h\<rparr>"
      have t1: "holds ?h1 this xs" by (rule holds_fresh[OF t])
      have nq: "raw_buffer (vec_data this) \<noteq> Some (fresh (blocks h))"
        using holds_block[OF t] by (cases "raw_buffer (vec_data this)") auto
      show ?thesis
        using vc ne gt nf Some Vector_dtor_holds[OF t1] nq
        by (cases "raw_buffer (vec_data this)")
           (simp_all add: copy_assign_body_def RawMemory_Capacity_def Swap_exchanges in_heap_def released_def)
    qed
  qed
qed










lemma relocate_Nil [simp]: "relocate E [] = Some []"
  by (simp add: relocate_def)


lemma not_exception_terminated [simp]: "\<not> is_exception terminated"
  by (simp add: is_exception_def)




subsection \<open>Construction, Reserve, Resize, insertion at the end, PopBack\<close>



lemma filter_live_replicate2 [simp]:
  "filter (\<lambda>s. s \<noteq> None) (replicate n None @ replicate m None) = []"
  by simp



















subsection \<open>Reallocating insertion\<close>




subsection \<open>Copy assignment into a container that is too small\<close>

text \<open>
  C5. Two distinct objects hold \<open>xs\<close> and \<open>ys\<close>, and the source has more elements than the
  target has capacity. Then copy assignment is decided by the temporary copy alone: when the
  allocation throws, or the copy of an element throws on the way, the exception goes on and
  the world is exactly as before, so the target has its size, its capacity and its elements,
  the source is untouched and nothing of the temporary is left. Otherwise the temporary is
  swapped in: the target holds the copies in a new buffer whose capacity is the size of the
  source, and its old elements and buffer are gone.
\<close>

theorem copy_assignment_into_small_capacity:
  assumes ne: "this \<noteq> rhs"
      and t: "holds (store w) (objects w this) xs" and r: "holds (store w) (objects w rhs) ys"
      and gt: "Capacity (objects w this) < Size (objects w rhs)"
  shows "copy_assignment E this rhs w =
     (if operator_new_fails E (length ys) then (Inl bad_alloc, w)
      else case copies E ys of
         None \<Rightarrow> (Inl element_exception, w)
       | Some zs \<Rightarrow>
           (Inr (),
            w\<lparr>objects := (objects w)
                 (this := \<lparr>vec_data = \<lparr>raw_buffer = Some (fresh (blocks (store w))),
                                       raw_capacity = length ys\<rparr>,
                           vec_size = length ys\<rparr>),
              store := (store w)\<lparr>blocks := (fresh (blocks (store w)), map Some zs)
                          # released (raw_buffer (vec_data (objects w this))) (blocks (store w))\<rparr>\<rparr>))"
proof -
  have gt': "raw_capacity (vec_data (objects w this)) < vec_size (objects w rhs)"
    using gt by (simp add: Capacity_def Size_def RawMemory_Capacity_def)
  show ?thesis
    using ne copy_assign_body_grow[OF t r gt', of E]
    by (simp add: copy_assignment_def split: option.splits)
qed

text \<open>An instance: the copy of the second element of the source throws.\<close>

theorem copy_assignment_into_small_capacity_witness:
  "holds (store W2) (objects W2 0) [7] \<and> holds (store W2) (objects W2 1) [1, 13] \<and>
   Capacity (objects W2 0) < Size (objects W2 1) \<and>
   copy_assignment E_copy 0 1 W2 = (Inl element_exception, W2)"
proof -
  have ne: "(0::nat) \<noteq> 1" by simp
  have t: "holds (store W2) (objects W2 0) [7]" by code_simp
  have r: "holds (store W2) (objects W2 1) [1, 13]" by code_simp
  have gt: "Capacity (objects W2 0) < Size (objects W2 1)" by code_simp
  have c: "copies E_copy [1, 13] = None" by code_simp
  have n: "\<not> operator_new_fails E_copy (length [1, 13 :: nat])" by code_simp
  from copy_assignment_into_small_capacity[OF ne t r gt, of E_copy] c n t r gt
  show ?thesis by simp
qed

subsection \<open>Growth of the capacity under PushBack\<close>

lemma RawMemory_new_capacity:
  "RawMemory_new E n h = (Inr nd, h0) \<Longrightarrow> raw_capacity nd = n"
  by (auto simp add: RawMemory_new_eq split: if_splits)

lemma EmplaceRealloc_try_success:
  "EmplaceRealloc_try E v nd position new_begin new_position args h = (step, Inr tn, h1) \<Longrightarrow>
   fst tn = v\<lparr>vec_data := fst (RawMemory_Swap (vec_data v) nd)\<rparr>"
  by (auto simp add: EmplaceRealloc_try_def split: prod.splits sum.splits)

lemma EmplaceRealloc_grows:
  assumes "EmplaceRealloc E pos args (v, h) = (Inr p, v', h')"
  shows "vec_size v' = vec_size v + 1 \<and>
         raw_capacity (vec_data v') = (if vec_size v = 0 then 1 else vec_size v * 2)"
proof -
  let ?c = "if vec_size v = 0 then 1 else vec_size v * 2"
  from assms obtain nd h0 where nd: "RawMemory_new E ?c h = (Inr nd, h0)"
    by (cases "RawMemory_new E ?c h") (auto simp add: EmplaceRealloc_def split: sum.splits)
  from assms nd obtain np where np:
    "(case ptr_diff pos (cbegin v) of Inl e \<Rightarrow> Inl e | Inr indx \<Rightarrow> RawMemory_plus E nd indx) = Inr np"
    by (cases "(case ptr_diff pos (cbegin v) of Inl e \<Rightarrow> Inl e | Inr indx \<Rightarrow> RawMemory_plus E nd indx)")
       (auto simp add: EmplaceRealloc_def)
  obtain step r h1 where t: "EmplaceRealloc_try E v nd pos (GetAddress nd) np args h0 = (step, r, h1)"
    by (cases "EmplaceRealloc_try E v nd pos (GetAddress nd) np args h0") auto
  from assms nd np t obtain tn where r: "r = Inr tn"
    by (cases r) (auto simp add: EmplaceRealloc_def in_heap_def unwind_def split: prod.splits sum.splits if_splits)
  have v': "v' = (fst tn)\<lparr>vec_size := vec_size (fst tn) + 1\<rparr>"
    using assms nd np t r
    by (auto simp add: EmplaceRealloc_def in_heap_def split: prod.splits)
  show ?thesis
    using v' EmplaceRealloc_try_success[OF t[unfolded r]] RawMemory_new_capacity[OF nd]
    by (simp add: RawMemory_Swap_def)
qed

lemma Emplace_grows:
  assumes "Emplace E pos args (v, h) = (Inr p, v', h')"
  shows "Size v' = Size v + 1 \<and>
         Capacity v' = (if Size v = Capacity v then max 1 (2 * Capacity v) else Capacity v)"
proof (cases "vec_size v = Capacity v")
  case True
  then have "EmplaceRealloc E pos args (v, h) = (Inr p, v', h')"
    using assms by (simp add: Emplace_def)
  from EmplaceRealloc_grows[OF this] True show ?thesis
    by (auto simp add: Size_def Capacity_def RawMemory_Capacity_def)
next
  case False
  then show ?thesis
    using assms
    by (auto simp add: Emplace_def Size_def Capacity_def RawMemory_Capacity_def
        split: sum.splits if_splits prod.splits)
qed

lemma PushBack_grows:
  assumes "PushBack E a (v, h) = (Inr (), v', h')"
  shows "Size v' = Size v + 1 \<and>
         Capacity v' = (if Size v = Capacity v then max 1 (2 * Capacity v) else Capacity v)"
proof -
  obtain args where "andthen (EmplaceBack E args) (\<lambda>r. lift (Inr ())) (v, h) = (Inr (), v', h')"
    using assms by (cases a) (auto simp add: PushBack_copy_def PushBack_move_def)
  then obtain p where "EmplaceBack E args (v, h) = (Inr p, v', h')"
    by (auto simp add: andthen_def lift_def split: prod.splits sum.splits)
  then obtain en where "Emplace E en args (v, h) = (Inr p, v', h')"
    by (auto simp add: EmplaceBack_def split: sum.splits)
  from Emplace_grows[OF this] show ?thesis .
qed

lemma PushBack_all_grows:
  "PushBack_all E ps (v, h) = (Inr (), v', h') \<Longrightarrow> (Size v, Capacity v) = spec_growth k \<Longrightarrow>
   (Size v', Capacity v') = spec_growth (k + length ps)"
proof (induction ps arbitrary: v h k)
  case Nil
  then show ?case by simp
next
  case (Cons a ps)
  from Cons.prems(1) obtain v1 h1 where s1: "PushBack E a (v, h) = (Inr (), v1, h1)"
    and rest: "PushBack_all E ps (v1, h1) = (Inr (), v', h')"
    by (auto simp add: andthen_def split: prod.splits sum.splits)
  have "(Size v1, Capacity v1) = spec_growth (Suc k)"
    using PushBack_grows[OF s1] Cons.prems(2)[symmetric] by simp
  from Cons.IH[OF rest this] show ?case by simp
qed

text \<open>
  C6. Starting from the empty container, after any sequence of calls of \<^verbatim>\<open>PushBack\<close> that all
  return, the capacity is the one the specification computes for that many pushes: from \<open>0\<close>,
  \<open>capacity' = max(1, 2 \<times> capacity)\<close> at the pushes that found the size equal to the capacity,
  and no change at the others. The size is the number of pushes.
\<close>

theorem capacity_after_pushes:
  assumes "PushBack_all E ps (Vector_default, h) = (Inr (), v', h')"
  shows "Capacity v' = snd (spec_growth (length ps)) \<and> Size v' = fst (spec_growth (length ps))"
proof -
  have "(Size Vector_default, Capacity Vector_default) = spec_growth 0"
    by (simp add: Size_def Capacity_def Vector_default_def RawMemory_default_def RawMemory_Capacity_def)
  from PushBack_all_grows[OF assms this] show ?thesis
    by (simp add: prod_eq_iff)
qed

text \<open>An instance: five pushes, by copy and by move, end with capacity eight.\<close>

theorem capacity_after_pushes_witness:
  "PushBack_all E_copy [ByCopy 1, ByMove 2, ByCopy 3, ByCopy 4, ByMove 5] (Vector_default, \<lparr>blocks = [], leaked = 0\<rparr>)
     = (Inr (), \<lparr>vec_data = \<lparr>raw_buffer = Some 4, raw_capacity = 8\<rparr>, vec_size = 5\<rparr>,
        \<lparr>blocks = [(4, [Some 1, Some 2, Some 3, Some 4, Some 5, None, None, None])], leaked = 0\<rparr>) \<and>
   snd (spec_growth 5) = 8 \<and>
   Capacity \<lparr>vec_data = \<lparr>raw_buffer = Some 4, raw_capacity = 8\<rparr>, vec_size = 5\<rparr> = snd (spec_growth (length [ByCopy 1, ByMove 2, ByCopy 3, ByCopy 4, ByMove (5::nat)]))"
proof -
  have run: "PushBack_all E_copy [ByCopy 1, ByMove 2, ByCopy 3, ByCopy 4, ByMove 5] (Vector_default, \<lparr>blocks = [], leaked = 0\<rparr>)
     = (Inr (), \<lparr>vec_data = \<lparr>raw_buffer = Some 4, raw_capacity = 8\<rparr>, vec_size = 5\<rparr>,
        \<lparr>blocks = [(4, [Some 1, Some 2, Some 3, Some 4, Some 5, None, None, None])], leaked = 0\<rparr>)"
    by code_simp
  have g: "snd (spec_growth 5) = 8" by code_simp
  from capacity_after_pushes[OF run] run g show ?thesis by simp
qed

subsection \<open>Moving a RawMemory\<close>

text \<open>
  C4 fails for move construction. The move constructor of \<^verbatim>\<open>RawMemory\<close> copies the handle and
  the capacity and leaves the source as it was, so two objects own one block; move assignment
  does reset its source. With a source that owns a block of two slots, the new object and the
  source both hold the handle, and destroying both releases the block twice.
\<close>

theorem RawMemory_move_construction_keeps_source:
  "RawMemory_move m = (m, m) \<and>
   RawMemory_assign t m = (m, \<lparr>raw_buffer = None, raw_capacity = 0\<rparr>) \<and>
   snd (RawMemory_move \<lparr>raw_buffer = Some 1, raw_capacity = 2\<rparr>)
     = \<lparr>raw_buffer = Some 1, raw_capacity = 2\<rparr> \<and>
   andthen (RawMemory_dtor (fst (RawMemory_move \<lparr>raw_buffer = Some 1, raw_capacity = 2\<rparr>)))
     (\<lambda>u. RawMemory_dtor (snd (RawMemory_move \<lparr>raw_buffer = Some 1, raw_capacity = 2\<rparr>)))
     \<lparr>blocks = [(1, [None, None :: nat option])], leaked = 0\<rparr>
     = (Inl undefined_behaviour, \<lparr>blocks = [], leaked = 0\<rparr>)"
  by (simp add: RawMemory_move_def RawMemory_assign_def Let_def RawMemory_dtor_def Deallocate_def
      andthen_def)

subsection \<open>PopBack on an empty container\<close>

text \<open>
  C7 fails for the second copy of the container. Its \<^verbatim>\<open>PopBack\<close> has no \<^verbatim>\<open>assert\<close>: on an
  empty container it is undefined behaviour in every build, also in a debug build, where the
  claim promises an assertion failure.
\<close>

theorem PopBack_000_on_empty_is_undefined:
  "PopBack_000 E (v\<lparr>vec_size := 0\<rparr>, h) = (Inl undefined_behaviour, v\<lparr>vec_size := 0\<rparr>, h)"
  by (simp add: PopBack_000_def end_minus_1_def Vector_end_def RawMemory_plus_def cassert_def
      ptr_sub_def)

text \<open>
  C8 fails at the same place. In a debug build, \<^verbatim>\<open>PopBack\<close> on an empty container ends in an
  assertion failure in the first copy of the container and in undefined behaviour in the
  second.
\<close>

theorem PopBack_variants_differ_on_empty:
  "PopBack (E\<lparr>NDEBUG := False\<rparr>) (v\<lparr>vec_size := 0\<rparr>, h)
     = (Inl assertion_failure, v\<lparr>vec_size := 0\<rparr>, h) \<and>
   PopBack_000 (E\<lparr>NDEBUG := False\<rparr>) (v\<lparr>vec_size := 0\<rparr>, h)
     = (Inl undefined_behaviour, v\<lparr>vec_size := 0\<rparr>, h)"
  by (simp add: PopBack_def PopBack_000_def end_minus_1_def Vector_end_def RawMemory_plus_def
      cassert_def ptr_sub_def)

subsection \<open>Which operations are transactional\<close>




subsection \<open>The iterators that insertion and erasure return\<close>



lemma overwrite_fault:
  "overwrite p x h = (Inl e, h') \<Longrightarrow> h' = h"
  by (auto simp add: overwrite_def split: option.splits)


lemma read_slot: "read h p = Inr x \<longleftrightarrow> slot h p = Some (Some x)"
  by (auto simp add: read_def split: option.splits)













lemma unwind_fails: "unwind e c s \<noteq> (Inr x, s')"
  by (auto simp add: unwind_def split: prod.splits sum.splits)








end
